theory Spec2Isabelle
  imports Main
begin

section \<open>The plugin API controller of PencilBlue\<close>

text \<open>
  A shallow embedding of
  \<^verbatim>\<open>plugins/pencilblue/controllers/api/plugins/plugin_api.js\<close>.
  The controller validates an action and an identifier taken from the request path and
  routes to one of five handlers. Every handler talks to collaborators through
  callbacks; here a collaborator is a function that returns what it would pass to its
  callback, and every call a handler makes is written to a trace of events, so that
  "is invoked", "is never invoked" and "answers exactly once" are statements about the
  trace. An exception that leaves a handler is the second component of its result.
\<close>

subsection \<open>JavaScript values\<close>

text \<open>
  The values the file inspects dynamically: the entries of \<^verbatim>\<open>VALID_ACTIONS\<close>
  and whatever a free identifier is bound to. \<open>JNative\<close> is a built-in function or
  object reached through the prototype chain, named by the property it was read from.
\<close>

datatype jsval =
    JUndefined
  | JNull
  | JBool bool
  | JStr string
  | JObj "(string \<times> jsval) list"
  | JNative string

datatype js_exception = ReferenceError string | TypeError string

fun truthy :: "jsval \<Rightarrow> bool" where
  "truthy JUndefined = False"
| "truthy JNull = False"
| "truthy (JBool b) = b"
| "truthy (JStr s) = (s \<noteq> [])"
| "truthy (JObj ps) = True"
| "truthy (JNative n) = True"

text \<open>
  The properties every object inherits from \<^verbatim>\<open>Object.prototype\<close>. A property
  read on an object literal that misses the object's own keys continues there, so
  \<^verbatim>\<open>o["constructor"]\<close> is a function for every object literal \<^verbatim>\<open>o\<close>.
\<close>

definition object_prototype_keys :: "string list" where
  "object_prototype_keys =
     [''constructor'', ''__defineGetter__'', ''__defineSetter__'', ''hasOwnProperty'',
      ''__lookupGetter__'', ''__lookupSetter__'', ''isPrototypeOf'',
      ''propertyIsEnumerable'', ''toString'', ''valueOf'', ''__proto__'',
      ''toLocaleString'']"

definition inherited_get :: "string \<Rightarrow> jsval" where
  "inherited_get k = (if k \<in> set object_prototype_keys then JNative k else JUndefined)"

definition obj_get :: "(string \<times> jsval) list \<Rightarrow> string \<Rightarrow> jsval" where
  "obj_get ps k = (case map_of ps k of Some v \<Rightarrow> v | None \<Rightarrow> inherited_get k)"

text \<open>
  \<^verbatim>\<open>v.k\<close>: a TypeError on \<^verbatim>\<open>undefined\<close> and \<^verbatim>\<open>null\<close>. The own
  properties of primitives and built-ins are left out: the file reads only
  \<^verbatim>\<open>forCluster\<close> from a value of unknown shape.
\<close>

fun get_prop :: "jsval \<Rightarrow> string \<Rightarrow> js_exception + jsval" where
  "get_prop JUndefined k = Inl (TypeError k)"
| "get_prop JNull k = Inl (TypeError k)"
| "get_prop (JObj ps) k = Inr (obj_get ps k)"
| "get_prop (JBool b) k = Inr (inherited_get k)"
| "get_prop (JStr s) k = Inr (inherited_get k)"
| "get_prop (JNative n) k = Inr (inherited_get k)"

subsection \<open>Errors, plugins and responses\<close>

text \<open>
  Callbacks follow the convention of the platform: the first argument is an
  \<^verbatim>\<open>Error\<close> or \<^verbatim>\<open>null\<close>, so it is a \<open>js_error option\<close> and
  \<^verbatim>\<open>util.isError(err)\<close> is \<open>err \<noteq> None\<close>. An error may carry
  \<^verbatim>\<open>validationErrors\<close>, an array of objects with a \<^verbatim>\<open>message\<close>.
\<close>

datatype validation_failure = ValidationFailure (vf_message: string)

record js_error =
  message :: string
  validationErrors :: "validation_failure list option"

record theme_def =
  settings :: "(string \<times> string) list option"

text \<open>The plugin descriptor the plugin service returns for a site.\<close>

record plugin =
  plugin_uid :: string
  plugin_dirName :: string
  plugin_theme :: "theme_def option"

text \<open>The contents of a plugin's details file.\<close>

record plugin_details =
  details_uid :: string
  details_theme :: "theme_def option"

datatype api_status = API_SUCCESS | API_FAILURE

datatype api_data = NoData | DataId string | DataMessages "string list"

record envelope =
  status :: api_status
  msg :: string
  data :: api_data

text \<open>
  Modelled from the spec: \<^verbatim>\<open>BaseController.apiResponse\<close> is not part of the file.
  The spec gives its result as the envelope \<^verbatim>\<open>{status, message, data}\<close>, with
  \<^verbatim>\<open>data\<close> absent when the caller passes none.
\<close>

definition apiResponse :: "api_status \<Rightarrow> string \<Rightarrow> api_data \<Rightarrow> envelope" where
  "apiResponse cd m dta = \<lparr>status = cd, msg = m, data = dta\<rparr>"

text \<open>What a handler passes to \<^verbatim>\<open>cb\<close>: the content and, where the code sets one, a status code.\<close>

record response =
  content :: envelope
  code :: "nat option"

subsection \<open>Jobs\<close>

datatype job_kind = PluginInstallJob | PluginUninstallJob

datatype job_state = Created | Initialized | Running

record job_ctx =
  ctx_name :: string
  ctx_pluginUid :: string
  ctx_site :: string
  ctx_initiator :: bool

record job =
  job_class :: job_kind
  job_id :: string
  job_name :: jsval
  job_pluginUid :: string
  isInitiator :: bool
  job_state :: job_state

text \<open>
  Modelled from the spec: the job classes are not part of the file. The spec describes a
  job handle \<^verbatim>\<open>{id, name, isInitiator, state, pluginUid}\<close>, built from a context
  \<^verbatim>\<open>{name, pluginUid, pluginService, initiator}\<close>, that goes from Created to
  Initialized to Running through \<^verbatim>\<open>init(name)\<close> and \<^verbatim>\<open>run(callback)\<close>, with
  \<^verbatim>\<open>setRunAsInitiator(bool)\<close> setting the role and \<^verbatim>\<open>getId()\<close> reading the
  identity. The identity is opaque: it is handed to the constructor here.
\<close>

definition new_job :: "job_kind \<Rightarrow> job_ctx \<Rightarrow> string \<Rightarrow> job" where
  "new_job k ctx i =
     \<lparr>job_class = k, job_id = i, job_name = JStr (ctx_name ctx),
      job_pluginUid = ctx_pluginUid ctx, isInitiator = ctx_initiator ctx,
      job_state = Created\<rparr>"

definition job_init :: "job \<Rightarrow> jsval \<Rightarrow> job" where
  "job_init j n = j\<lparr>job_name := n, job_state := Initialized\<rparr>"

definition setRunAsInitiator :: "job \<Rightarrow> bool \<Rightarrow> job" where
  "setRunAsInitiator j b = j\<lparr>isInitiator := b\<rparr>"

definition job_run :: "job \<Rightarrow> job" where
  "job_run j = j\<lparr>job_state := Running\<rparr>"

definition getId :: "job \<Rightarrow> string" where
  "getId j = job_id j"

subsection \<open>Events and outcomes\<close>

datatype event =
    GetPluginBySite string
  | GetDetailsPath string
  | DetailsLoad string
  | ResetSettings "plugin_details option"
  | ResetThemeSettings plugin_details
  | InitPlugin "plugin option"
  | SettingsSet string string
  | JobNew job_kind job_ctx
  | JobInit jsval
  | JobSetRunAsInitiator bool
  | JobRun job
  | Respond response
  | Serve404
  | InvokeOther string string

text \<open>
  The events of a run in order, and the exception that ended it, if one did.
  \<open>Respond r\<close> is a call of the handler's callback \<^verbatim>\<open>cb\<close> with \<open>r\<close>;
  \<open>Serve404\<close> is \<^verbatim>\<open>reqHandler.serve404()\<close>; \<open>InvokeOther a i\<close> is a call
  \<^verbatim>\<open>this[a](i, cb)\<close> that reaches a member this file does not define.
\<close>

type_synonym outcome = "event list \<times> js_exception option"

fun responses :: "event list \<Rightarrow> response list" where
  "responses [] = []"
| "responses (Respond r # es) = r # responses es"
| "responses (e # es) = responses es"

subsection \<open>The dependencies of the module\<close>

text \<open>
  The module is a function of \<^verbatim>\<open>pb\<close>. These are the members of \<^verbatim>\<open>pb\<close> it
  uses that compute a value: \<^verbatim>\<open>pb.validation.isNonEmptyStr(v, true)\<close>,
  \<^verbatim>\<open>pb.util.format(fmt, uid)\<close>, \<^verbatim>\<open>pb.RequestHandler.DEFAULT_THEME\<close>, the
  \<^verbatim>\<open>createName\<close> of the two job classes and the identity a new job gets.
\<close>

record pb_deps =
  isNonEmptyStr :: "string \<Rightarrow> bool"
  format :: "string \<Rightarrow> string \<Rightarrow> string"
  DEFAULT_THEME :: string
  install_createName :: "string \<Rightarrow> string"
  uninstall_createName :: "string \<Rightarrow> string"
  fresh_job_id :: "job_kind \<Rightarrow> job_ctx \<Rightarrow> string"

text \<open>
  The identifiers the file reads without declaring them (\<^verbatim>\<open>name\<close> in
  \<^verbatim>\<open>install\<close>, \<^verbatim>\<open>options\<close> in \<^verbatim>\<open>uninstall\<close>,
  \<^verbatim>\<open>PluginDetailsLoader\<close> in \<^verbatim>\<open>reset_settings\<close>) resolve against the
  global object. \<open>None\<close> is an identifier nobody defined: reading it throws a
  ReferenceError. A bound \<^verbatim>\<open>PluginDetailsLoader\<close> is given by its
  \<^verbatim>\<open>load\<close> function, which returns the details or \<^verbatim>\<open>null\<close>.
\<close>

record globals =
  g_name :: "jsval option"
  g_options :: "jsval option"
  g_PluginDetailsLoader :: "(string \<Rightarrow> plugin_details option) option"

text \<open>The global object of the platform: none of the three is defined.\<close>

definition node_globals :: globals where
  "node_globals = \<lparr>g_name = None, g_options = None, g_PluginDetailsLoader = None\<rparr>"

text \<open>
  The controller instance: its site, its localisation service \<^verbatim>\<open>this.ls.g\<close>, the
  plugin service created for the site and the settings service.
\<close>

record controller =
  site :: string
  ls_g :: "string \<Rightarrow> string"
  getPluginBySite :: "string \<Rightarrow> js_error option \<times> plugin option"
  resetSettings :: "plugin_details option \<Rightarrow> js_error option"
  resetThemeSettings :: "plugin_details \<Rightarrow> js_error option"
  initPlugin :: "plugin option \<Rightarrow> js_error option"
  settings_set :: "string \<Rightarrow> string \<Rightarrow> js_error option"

subsection \<open>install and uninstall\<close>

text \<open>
  \<^verbatim>\<open>install\<close> builds the context and the job, then evaluates \<^verbatim>\<open>job.init(name)\<close>.
  No \<^verbatim>\<open>name\<close> is declared in the function or around it (the job's name was written
  into the context directly), so the argument is read from the global object.
  \<^verbatim>\<open>render\<close> always passes a callback, so the default for a missing
  \<^verbatim>\<open>cb\<close> is not taken. The callback given to \<^verbatim>\<open>job.run\<close> is empty: what
  the job does later reaches neither the trace nor the answer.
\<close>

definition install :: "pb_deps \<Rightarrow> globals \<Rightarrow> controller \<Rightarrow> string \<Rightarrow> outcome" where
  "install pb g this uid =
     (let ctx = \<lparr>ctx_name = install_createName pb uid, ctx_pluginUid = uid,
                 ctx_site = site this, ctx_initiator = True\<rparr>;
          job0 = new_job PluginInstallJob ctx (fresh_job_id pb PluginInstallJob ctx)
      in case g_name g of
           None \<Rightarrow> ([JobNew PluginInstallJob ctx], Some (ReferenceError ''name''))
         | Some n \<Rightarrow>
             (let job1 = job_init job0 n;
                  job2 = setRunAsInitiator job1 True;
                  job3 = job_run job2
              in ([JobNew PluginInstallJob ctx, JobInit n, JobSetRunAsInitiator True,
                   JobRun job3,
                   Respond \<lparr>content = apiResponse API_SUCCESS '''' (DataId (getId job3)),
                            code = None\<rparr>],
                  None)))"

text \<open>
  \<^verbatim>\<open>uninstall\<close> declares \<^verbatim>\<open>name\<close>, then reads \<^verbatim>\<open>options.forCluster\<close>
  while it builds the context, before any job exists. \<^verbatim>\<open>options\<close> is not declared
  either. \<^verbatim>\<open>x !== false\<close> holds for every value but the boolean \<^verbatim>\<open>false\<close>.
\<close>

definition uninstall :: "pb_deps \<Rightarrow> globals \<Rightarrow> controller \<Rightarrow> string \<Rightarrow> outcome" where
  "uninstall pb g this uid =
     (let name = uninstall_createName pb uid
      in case g_options g of
           None \<Rightarrow> ([], Some (ReferenceError ''options''))
         | Some opts \<Rightarrow>
             (case get_prop opts ''forCluster'' of
                Inl x \<Rightarrow> ([], Some x)
              | Inr forCluster \<Rightarrow>
                  (let initiator = (forCluster \<noteq> JBool False);
                       ctx = \<lparr>ctx_name = name, ctx_pluginUid = uid,
                              ctx_site = site this, ctx_initiator = initiator\<rparr>;
                       job0 = new_job PluginUninstallJob ctx
                                (fresh_job_id pb PluginUninstallJob ctx);
                       job1 = job_init job0 (JStr name);
                       job2 = setRunAsInitiator job1 initiator;
                       job3 = job_run job2
                   in ([JobNew PluginUninstallJob ctx, JobInit (JStr name),
                        JobSetRunAsInitiator initiator, JobRun job3,
                        Respond \<lparr>content = apiResponse API_SUCCESS ''''
                                            (DataId (getId job3)),
                                 code = None\<rparr>],
                       None))))"

subsection \<open>reset_settings\<close>

text \<open>
  The three tasks share the variable \<^verbatim>\<open>details\<close>, initially \<^verbatim>\<open>null\<close>; it is
  threaded through them together with the trace. A task ends by calling its callback
  without an error, by calling it with one, or by throwing.
\<close>

datatype step_result = StepOk | StepErr js_error | StepThrew js_exception

record pstate =
  details :: "plugin_details option"
  trace :: "event list"

type_synonym task = "pstate \<Rightarrow> step_result \<times> pstate"

definition log :: "event \<Rightarrow> pstate \<Rightarrow> pstate" where
  "log e s = s\<lparr>trace := trace s @ [e]\<rparr>"

text \<open>
  \<^verbatim>\<open>async.series\<close> of the async library: the tasks run in order, each after the
  one before it has called back; the first error ends the series and goes to the final
  callback, as does the end of the list.
\<close>

fun async_series :: "task list \<Rightarrow> pstate \<Rightarrow> step_result \<times> pstate" where
  "async_series [] s = (StepOk, s)"
| "async_series (t # ts) s =
     (case t s of
        (StepOk, s') \<Rightarrow> async_series ts s'
      | (StepErr e, s') \<Rightarrow> (StepErr e, s')
      | (StepThrew x, s') \<Rightarrow> (StepThrew x, s'))"

text \<open>
  The first task tests only the plugin the lookup returned, not its error. With a
  plugin it computes the details path and then evaluates
  \<^verbatim>\<open>PluginDetailsLoader.load(plugin.dirName)\<close>; the file neither declares nor
  imports \<^verbatim>\<open>PluginDetailsLoader\<close>.
\<close>

definition load_plugin :: "pb_deps \<Rightarrow> globals \<Rightarrow> controller \<Rightarrow> string \<Rightarrow> task" where
  "load_plugin pb g this uid s =
     (let s1 = log (GetPluginBySite uid) s
      in case snd (getPluginBySite this uid) of
           None \<Rightarrow>
             (StepErr \<lparr>message = format pb (ls_g this ''generic.PLUGIN_NOT_FOUND'') uid,
                       validationErrors = None\<rparr>, s1)
         | Some p \<Rightarrow>
             (let s2 = log (GetDetailsPath (plugin_dirName p)) s1
              in case g_PluginDetailsLoader g of
                   None \<Rightarrow> (StepThrew (ReferenceError ''PluginDetailsLoader''), s2)
                 | Some load \<Rightarrow>
                     (StepOk, (log (DetailsLoad (plugin_dirName p)) s2)
                                \<lparr>details := load (plugin_dirName p)\<rparr>)))"

definition reset_plugin_settings :: "controller \<Rightarrow> task" where
  "reset_plugin_settings this s =
     (let s1 = log (ResetSettings (details s)) s
      in case resetSettings this (details s) of
           None \<Rightarrow> (StepOk, s1)
         | Some e \<Rightarrow> (StepErr e, s1))"

text \<open>
  \<^verbatim>\<open>details.theme\<close> on \<^verbatim>\<open>null\<close> details is a TypeError. An empty settings
  array is truthy: only an absent theme or absent settings skip the reset.
\<close>

definition reset_theme_settings :: "controller \<Rightarrow> task" where
  "reset_theme_settings this s =
     (case details s of
        None \<Rightarrow> (StepThrew (TypeError ''theme''), s)
      | Some d \<Rightarrow>
          (case details_theme d of
             None \<Rightarrow> (StepOk, s)
           | Some t \<Rightarrow>
               (case settings t of
                  None \<Rightarrow> (StepOk, s)
                | Some x \<Rightarrow>
                    (let s1 = log (ResetThemeSettings d) s
                     in case resetThemeSettings this d of
                          None \<Rightarrow> (StepOk, s1)
                        | Some e \<Rightarrow> (StepErr e, s1)))))"

text \<open>The loop of the final callback: it pushes the message of each validation error.\<close>

fun push_messages :: "string list \<Rightarrow> validation_failure list \<Rightarrow> string list" where
  "push_messages dta [] = dta"
| "push_messages dta (v # vs) = push_messages (dta @ [vf_message v]) vs"

definition error_messages :: "js_error \<Rightarrow> string list" where
  "error_messages err =
     (case validationErrors err of
        None \<Rightarrow> [message err]
      | Some vs \<Rightarrow> push_messages [message err] vs)"

definition reset_settings_done ::
  "pb_deps \<Rightarrow> controller \<Rightarrow> string \<Rightarrow> step_result \<times> pstate \<Rightarrow> outcome" where
  "reset_settings_done pb this uid r =
     (case r of
        (StepThrew x, s) \<Rightarrow> (trace s, Some x)
      | (StepErr err, s) \<Rightarrow>
          (trace s @
             [Respond \<lparr>content = apiResponse API_FAILURE
                                   (format pb (ls_g this ''generic.RESET_SETTINGS_FAILED'') uid)
                                   (DataMessages (error_messages err)),
                       code = Some 400\<rparr>],
           None)
      | (StepOk, s) \<Rightarrow>
          (trace s @
             [Respond \<lparr>content = apiResponse API_SUCCESS
                                   (format pb (ls_g this ''generic.RESET_SETTINGS_SUCCESS'') uid)
                                   NoData,
                       code = None\<rparr>],
           None))"

definition reset_tasks :: "pb_deps \<Rightarrow> globals \<Rightarrow> controller \<Rightarrow> string \<Rightarrow> task list" where
  "reset_tasks pb g this uid =
     [load_plugin pb g this uid, reset_plugin_settings this, reset_theme_settings this]"

definition reset_settings :: "pb_deps \<Rightarrow> globals \<Rightarrow> controller \<Rightarrow> string \<Rightarrow> outcome" where
  "reset_settings pb g this uid =
     reset_settings_done pb this uid
       (async_series (reset_tasks pb g this uid) \<lparr>details = None, trace = []\<rparr>)"

subsection \<open>initialize\<close>

definition initialize :: "pb_deps \<Rightarrow> controller \<Rightarrow> string \<Rightarrow> outcome" where
  "initialize pb this uid =
     (case getPluginBySite this uid of
        (Some err, p) \<Rightarrow>
          ([GetPluginBySite uid,
            Respond \<lparr>content = apiResponse API_FAILURE
                                  (format pb (ls_g this ''generic.INITIALIZATION_FAILED'') uid)
                                  (DataMessages [message err]),
                     code = Some 500\<rparr>],
           None)
      | (None, p) \<Rightarrow>
          ([GetPluginBySite uid, InitPlugin p,
            Respond
              (case initPlugin this p of
                 Some err \<Rightarrow>
                   \<lparr>content = apiResponse API_FAILURE
                                (format pb (ls_g this ''generic.INITIALIZATION_FAILED'') uid)
                                (DataMessages [message err]),
                    code = Some 400\<rparr>
               | None \<Rightarrow>
                   \<lparr>content = apiResponse API_SUCCESS
                                (format pb (ls_g this ''generic.INITIALIZATION_SUCCESS'') uid)
                                NoData,
                    code = Some 200\<rparr>)],
           None))"

subsection \<open>set_theme\<close>

text \<open>
  Both guards start with \<^verbatim>\<open>uid !== RequestHandler.DEFAULT_THEME\<close>: the first
  answers a lookup error, the second (the first branch of \<open>set_active_theme\<close>) a
  missing plugin or a plugin whose \<^verbatim>\<open>theme\<close> is not an object. The theme that is
  stored is the uid of the plugin the lookup returned, or the requested uid when it
  returned none.
\<close>

definition set_active_theme :: "pb_deps \<Rightarrow> controller \<Rightarrow> string \<Rightarrow> plugin option \<Rightarrow> outcome" where
  "set_active_theme pb this uid p =
     (if uid \<noteq> DEFAULT_THEME pb \<and>
         (case p of None \<Rightarrow> True | Some q \<Rightarrow> plugin_theme q = None) then
        ([GetPluginBySite uid, Serve404], None)
      else
        (let thm = (case p of Some q \<Rightarrow> plugin_uid q | None \<Rightarrow> uid)
         in ([GetPluginBySite uid, SettingsSet ''active_theme'' thm,
              Respond
                (case settings_set this ''active_theme'' thm of
                   Some e \<Rightarrow>
                     \<lparr>content = apiResponse API_FAILURE
                                  (format pb (ls_g this ''generic.SET_THEME_FAILED'') uid)
                                  (DataMessages [message e]),
                      code = Some 500\<rparr>
                 | None \<Rightarrow>
                     \<lparr>content = apiResponse API_SUCCESS
                                  (format pb (ls_g this ''generic.SET_THEME_SUCCESS'') uid)
                                  NoData,
                      code = Some 200\<rparr>)],
             None)))"

definition set_theme :: "pb_deps \<Rightarrow> controller \<Rightarrow> string \<Rightarrow> outcome" where
  "set_theme pb this uid =
     (case getPluginBySite this uid of
        (Some err, p) \<Rightarrow>
          (if uid \<noteq> DEFAULT_THEME pb then
             ([GetPluginBySite uid,
               Respond \<lparr>content = apiResponse API_FAILURE
                                     (format pb (ls_g this ''generic.SET_THEME_FAILED'') uid)
                                     (DataMessages [message err]),
                        code = Some 500\<rparr>],
              None)
           else set_active_theme pb this uid p)
      | (None, p) \<Rightarrow> set_active_theme pb this uid p)"

subsection \<open>render\<close>

definition VALID_ACTIONS :: "(string \<times> jsval) list" where
  "VALID_ACTIONS =
     [(''install'', JBool True), (''uninstall'', JBool True),
      (''reset_settings'', JBool True), (''initialize'', JBool True),
      (''set_theme'', JBool True)]"

text \<open>
  The path variables are segments of the request path, hence strings; a missing one
  is the empty string here, which the property read misses just as it misses the key
  \<^verbatim>\<open>"undefined"\<close>. \<^verbatim>\<open>VALID_ACTIONS[action]\<close> is a property read on an object
  literal: the first test compares the value read with \<^verbatim>\<open>undefined\<close>, the second
  takes its truth value.
\<close>

definition validate :: "pb_deps \<Rightarrow> controller \<Rightarrow> string \<Rightarrow> string \<Rightarrow> string list" where
  "validate pb this action identifier =
     (let errors0 = [];
          errors1 =
            (if \<not> isNonEmptyStr pb action \<or> obj_get VALID_ACTIONS action = JUndefined
             then errors0 @ [ls_g this ''generic.VALID_ACTION_REQUIRED'']
             else errors0);
          errors2 =
            (if truthy (obj_get VALID_ACTIONS action) \<and> \<not> isNonEmptyStr pb identifier
             then errors1 @ [ls_g this ''generic.VALID_IDENTIFIER_REQUIRED'']
             else errors1)
      in errors2)"

text \<open>
  \<^verbatim>\<open>this[action](identifier, cb)\<close>. The controller defines the five handlers.
  \<^verbatim>\<open>this["__proto__"]\<close> is the prototype object, not a function: calling it throws
  a TypeError. For any other property name the call leaves the file, and what it reaches
  (a function inherited from a base class or from \<^verbatim>\<open>Object.prototype\<close>) is not
  modelled further; \<^verbatim>\<open>render\<close> lets no name through that is neither one of
  the five nor a property of \<^verbatim>\<open>Object.prototype\<close>.
\<close>

definition route ::
  "pb_deps \<Rightarrow> globals \<Rightarrow> controller \<Rightarrow> string \<Rightarrow> string \<Rightarrow> outcome" where
  "route pb g this action identifier =
     (if action = ''install'' then install pb g this identifier
      else if action = ''uninstall'' then uninstall pb g this identifier
      else if action = ''reset_settings'' then reset_settings pb g this identifier
      else if action = ''initialize'' then initialize pb this identifier
      else if action = ''set_theme'' then set_theme pb this identifier
      else if action = ''__proto__'' then ([], Some (TypeError ''__proto__''))
      else ([InvokeOther action identifier], None))"

definition render ::
  "pb_deps \<Rightarrow> globals \<Rightarrow> controller \<Rightarrow> string \<Rightarrow> string \<Rightarrow> outcome" where
  "render pb g this action identifier =
     (let errors = validate pb this action identifier
      in if length errors > 0 then
           ([Respond \<lparr>content = apiResponse API_FAILURE '''' (DataMessages errors),
                      code = Some 400\<rparr>],
            None)
         else route pb g this action identifier)"

subsection \<open>A concrete installation\<close>

text \<open>
  Modelled from the spec: \<^verbatim>\<open>pb.validation.isNonEmptyStr\<close> is not part of the file.
  The spec calls the values it rejects "empty/blank": a string is accepted when
  something other than white space is in it.
\<close>

definition is_space :: "char \<Rightarrow> bool" where
  "is_space c = (c \<in> set [CHR '' '', CHR 0x09, CHR 0x0A, CHR 0x0D])"

definition nonEmptyStr :: "string \<Rightarrow> bool" where
  "nonEmptyStr s = (dropWhile is_space s \<noteq> [])"

text \<open>
  Sample dependencies: the format appends the argument to the format string, the
  default theme is the one of the spec's example, every job gets the same identity.
\<close>

definition sample_pb :: pb_deps where
  "sample_pb =
     \<lparr>isNonEmptyStr = nonEmptyStr,
      format = (\<lambda>fmt u. fmt @ '' '' @ u),
      DEFAULT_THEME = ''default'',
      install_createName = (\<lambda>u. ''install_'' @ u),
      uninstall_createName = (\<lambda>u. ''uninstall_'' @ u),
      fresh_job_id = (\<lambda>k ctx. ''job-1'')\<rparr>"

text \<open>
  A site with two plugins: \<^verbatim>\<open>portfolio\<close> has a theme, \<^verbatim>\<open>wp_import\<close> has none.
  The lookup of \<^verbatim>\<open>default\<close> and of \<^verbatim>\<open>broken\<close> fails with an error; every other
  uid is not found.
\<close>

definition sample_lookup :: "string \<Rightarrow> js_error option \<times> plugin option" where
  "sample_lookup u =
     (if u = ''portfolio'' then
        (None, Some \<lparr>plugin_uid = ''portfolio'', plugin_dirName = ''portfolio'',
                     plugin_theme = Some \<lparr>settings = Some []\<rparr>\<rparr>)
      else if u = ''wp_import'' then
        (None, Some \<lparr>plugin_uid = ''wp_import'', plugin_dirName = ''wp_import'',
                     plugin_theme = None\<rparr>)
      else if u = ''default'' then
        (Some \<lparr>message = ''lookup failed'', validationErrors = None\<rparr>, None)
      else if u = ''broken'' then
        (Some \<lparr>message = ''lookup failed'', validationErrors = None\<rparr>, None)
      else (None, None))"

text \<open>
  Resetting the settings succeeds for \<^verbatim>\<open>wp_import\<close> and fails with two validation
  errors otherwise; initialising fails without a plugin; storing a setting succeeds.
\<close>

definition sample_resetSettings :: "plugin_details option \<Rightarrow> js_error option" where
  "sample_resetSettings d =
     (if map_option details_uid d = Some ''wp_import'' then None
      else Some \<lparr>message = ''invalid settings'',
                 validationErrors =
                   Some [ValidationFailure ''name is required'',
                         ValidationFailure ''value is required'']\<rparr>)"

definition sample_initPlugin :: "plugin option \<Rightarrow> js_error option" where
  "sample_initPlugin p =
     (case p of
        None \<Rightarrow> Some \<lparr>message = ''no plugin'', validationErrors = None\<rparr>
      | Some q \<Rightarrow> None)"

definition sample_this :: controller where
  "sample_this =
     \<lparr>site = ''global'',
      ls_g = (\<lambda>k. k),
      getPluginBySite = sample_lookup,
      resetSettings = sample_resetSettings,
      resetThemeSettings = (\<lambda>d. None),
      initPlugin = sample_initPlugin,
      settings_set = (\<lambda>k v. None)\<rparr>"

text \<open>
  A global object on which somebody defined \<^verbatim>\<open>PluginDetailsLoader\<close>: the only
  way the first task of \<^verbatim>\<open>reset_settings\<close> gets past its last statement.
\<close>

definition loader_globals :: globals where
  "loader_globals =
     \<lparr>g_name = None, g_options = None,
      g_PluginDetailsLoader = Some (\<lambda>d. Some \<lparr>details_uid = d, details_theme = None\<rparr>)\<rparr>"

lemmas sample_defs =
  sample_pb_def sample_this_def sample_lookup_def sample_resetSettings_def
  sample_initPlugin_def node_globals_def loader_globals_def nonEmptyStr_def is_space_def

section \<open>Properties\<close>

subsection \<open>Property reads on the table of actions\<close>

lemma obj_get_own:
  "k \<in> set (map fst VALID_ACTIONS) \<Longrightarrow> obj_get VALID_ACTIONS k = JBool True"
  by (auto simp: obj_get_def VALID_ACTIONS_def)

lemma obj_get_inherited:
  "k \<in> set object_prototype_keys \<Longrightarrow> obj_get VALID_ACTIONS k = JNative k"
  by (auto simp: obj_get_def VALID_ACTIONS_def inherited_get_def object_prototype_keys_def)

lemma obj_get_miss:
  "k \<notin> set (map fst VALID_ACTIONS) \<Longrightarrow> k \<notin> set object_prototype_keys \<Longrightarrow>
   obj_get VALID_ACTIONS k = JUndefined"
  by (auto simp: obj_get_def VALID_ACTIONS_def inherited_get_def map_of_eq_None_iff
           split: option.splits dest: map_of_SomeD)

lemma obj_get_constructor: "obj_get VALID_ACTIONS ''constructor'' = JNative ''constructor''"
  by (simp add: obj_get_inherited object_prototype_keys_def)

subsection \<open>install\<close>

lemma install_name_unbound:
  "g_name g = None \<Longrightarrow> snd (install pb g this uid) = Some (ReferenceError ''name'') \<and>
     responses (fst (install pb g this uid)) = []"
  by (simp add: install_def Let_def)

lemma install_name_bound:
  "g_name g = Some n \<Longrightarrow>
   \<exists>j. install pb g this uid =
         ([JobNew PluginInstallJob
             \<lparr>ctx_name = install_createName pb uid, ctx_pluginUid = uid,
              ctx_site = site this, ctx_initiator = True\<rparr>,
           JobInit n, JobSetRunAsInitiator True, JobRun j,
           Respond \<lparr>content = \<lparr>status = API_SUCCESS, msg = '''', data = DataId (job_id j)\<rparr>,
                    code = None\<rparr>],
          None) \<and>
        isInitiator j \<and> job_state j = Running \<and> job_pluginUid j = uid"
  by (simp add: install_def Let_def apiResponse_def getId_def job_run_def
                setRunAsInitiator_def job_init_def new_job_def)

text \<open>
  C1. The claim: for every non-empty plugin identifier, install creates a job marked as
  initiator, schedules it and returns a Success envelope with the job's id, and never
  fails. On the platform's global object, where no \<^verbatim>\<open>name\<close> is defined, install of
  \<^verbatim>\<open>plugin-x\<close> creates the job and then throws a ReferenceError on
  \<^verbatim>\<open>job.init(name)\<close>: the job is neither initialised nor run and no envelope is
  returned.
\<close>

theorem install_throws_on_undeclared_name:
  "install sample_pb node_globals sample_this ''plugin-x'' =
     ([JobNew PluginInstallJob
         \<lparr>ctx_name = ''install_plugin-x'', ctx_pluginUid = ''plugin-x'',
          ctx_site = ''global'', ctx_initiator = True\<rparr>],
      Some (ReferenceError ''name''))"
  by (simp add: install_def sample_defs)

subsection \<open>uninstall\<close>

lemma uninstall_options_unbound:
  "g_options g = None \<Longrightarrow> uninstall pb g this uid = ([], Some (ReferenceError ''options''))"
  by (simp add: uninstall_def)

lemma uninstall_options_bound:
  "g_options g = Some (JObj ps) \<Longrightarrow>
   \<exists>j c. uninstall pb g this uid =
         ([JobNew PluginUninstallJob c, JobInit (JStr (uninstall_createName pb uid)),
           JobSetRunAsInitiator (obj_get ps ''forCluster'' \<noteq> JBool False), JobRun j,
           Respond \<lparr>content = \<lparr>status = API_SUCCESS, msg = '''', data = DataId (job_id j)\<rparr>,
                    code = None\<rparr>],
          None) \<and>
        ctx_initiator c = (obj_get ps ''forCluster'' \<noteq> JBool False) \<and>
        isInitiator j = (obj_get ps ''forCluster'' \<noteq> JBool False) \<and>
        job_state j = Running"
  by (simp add: uninstall_def Let_def apiResponse_def getId_def job_run_def
                setRunAsInitiator_def job_init_def new_job_def)

text \<open>
  C5. The claim: the initiator role of uninstall follows a cluster-scope flag read from
  request-scoped configuration, true unless the flag is explicitly false. The code reads
  the flag from \<^verbatim>\<open>options\<close>, which it never declares: on the platform's global
  object uninstall of \<^verbatim>\<open>plugin-x\<close> throws a ReferenceError while it builds the
  context, before any job exists.
\<close>

theorem uninstall_throws_on_undeclared_options:
  "uninstall sample_pb node_globals sample_this ''plugin-x'' =
     ([], Some (ReferenceError ''options''))"
  by (simp add: uninstall_def sample_defs)

subsection \<open>render\<close>

lemma render_validation_failure:
  "validate pb this action identifier \<noteq> [] \<Longrightarrow>
   render pb g this action identifier =
     ([Respond \<lparr>content = \<lparr>status = API_FAILURE, msg = '''',
                            data = DataMessages (validate pb this action identifier)\<rparr>,
                code = Some 400\<rparr>],
      None)"
  by (simp add: render_def Let_def apiResponse_def)

lemma validate_unknown_action:
  "action \<notin> set (map fst VALID_ACTIONS) \<Longrightarrow> action \<notin> set object_prototype_keys \<Longrightarrow>
   validate pb this action identifier = [ls_g this ''generic.VALID_ACTION_REQUIRED'']"
  by (simp add: validate_def obj_get_miss)

lemma validate_missing_identifier:
  "action \<in> set (map fst VALID_ACTIONS) \<Longrightarrow> \<not> isNonEmptyStr pb identifier \<Longrightarrow>
   ls_g this ''generic.VALID_IDENTIFIER_REQUIRED'' \<in> set (validate pb this action identifier)"
  by (simp add: validate_def obj_get_own)

lemma render_known_action:
  "action \<in> set (map fst VALID_ACTIONS) \<Longrightarrow> isNonEmptyStr pb action \<Longrightarrow>
   isNonEmptyStr pb identifier \<Longrightarrow>
   render pb g this action identifier = route pb g this action identifier"
  by (simp add: render_def validate_def obj_get_own)

lemma validate_inherited_key:
  "action \<in> set object_prototype_keys \<Longrightarrow> isNonEmptyStr pb action \<Longrightarrow>
   validate pb this action identifier =
     (if isNonEmptyStr pb identifier then []
      else [ls_g this ''generic.VALID_IDENTIFIER_REQUIRED''])"
  by (simp add: validate_def obj_get_inherited)

lemma route_inherited_key:
  "action \<in> set object_prototype_keys \<Longrightarrow>
   route pb g this action identifier =
     (if action = ''__proto__'' then ([], Some (TypeError ''__proto__''))
      else ([InvokeOther action identifier], None))"
  by (auto simp: route_def object_prototype_keys_def)

lemma render_inherited_key:
  "action \<in> set object_prototype_keys \<Longrightarrow> isNonEmptyStr pb action \<Longrightarrow>
   isNonEmptyStr pb identifier \<Longrightarrow>
   render pb g this action identifier =
     (if action = ''__proto__'' then ([], Some (TypeError ''__proto__''))
      else ([InvokeOther action identifier], None))"
  by (simp add: render_def validate_inherited_key route_inherited_key)

lemma render_proto_key:
  "render sample_pb node_globals sample_this ''__proto__'' ''x'' =
     ([], Some (TypeError ''__proto__''))"
  by (simp add: render_def validate_def route_def obj_get_inherited object_prototype_keys_def
                sample_defs)

lemma validate_passes_only_known_or_inherited:
  "validate pb this action identifier = [] \<Longrightarrow>
   action \<in> set (map fst VALID_ACTIONS) \<or> action \<in> set object_prototype_keys"
  by (rule ccontr) (simp add: validate_unknown_action)

text \<open>
  C2. The claim: every request whose validation finds an error, in particular every
  request for an unknown action, gets exactly one Failure envelope with status 400 and
  reaches no handler. The action \<^verbatim>\<open>constructor\<close> is not in the table, but the
  property read finds the inherited \<^verbatim>\<open>Object.prototype.constructor\<close>: with the
  identifier \<^verbatim>\<open>x\<close> validation finds no error, no envelope is returned and
  \<^verbatim>\<open>this["constructor"]("x", cb)\<close> is called.
\<close>

theorem render_routes_inherited_key:
  "render sample_pb node_globals sample_this ''constructor'' ''x'' =
     ([InvokeOther ''constructor'' ''x''], None)"
  by (simp add: render_def validate_def route_def obj_get_constructor sample_defs)

text \<open>
  C9. The claim: an action that requires an identifier and comes with an empty or blank
  one gets the "missing identifier" message, and that message never fires for an unknown
  action. For the unknown action \<^verbatim>\<open>constructor\<close> with an empty identifier the
  inherited property is truthy: the only message of the Failure envelope is the
  "missing identifier" one, and the "invalid action" message is absent.
\<close>

theorem render_missing_identifier_for_inherited_key:
  "render sample_pb node_globals sample_this ''constructor'' '''' =
     ([Respond \<lparr>content = \<lparr>status = API_FAILURE, msg = '''',
                            data = DataMessages [''generic.VALID_IDENTIFIER_REQUIRED'']\<rparr>,
                code = Some 400\<rparr>],
      None)"
  by (simp add: render_def validate_def apiResponse_def obj_get_constructor sample_defs)

subsection \<open>set_theme\<close>

text \<open>
  C3. With the default theme as identifier, whatever the lookup returns (an error, no
  plugin, or a plugin), set_theme never serves the not-found page and never fails on
  the lookup: it stores the active theme, which is the requested identifier when the
  lookup returned no plugin, and its only answer is the one for the outcome of the
  store, a Success envelope with status 200 when the store succeeds.
\<close>

theorem set_theme_default_theme:
  assumes "getPluginBySite this (DEFAULT_THEME pb) = (err, p)"
  shows "Serve404 \<notin> set (fst (set_theme pb this (DEFAULT_THEME pb))) \<and>
         snd (set_theme pb this (DEFAULT_THEME pb)) = None \<and>
         (p = None \<longrightarrow>
            SettingsSet ''active_theme'' (DEFAULT_THEME pb)
              \<in> set (fst (set_theme pb this (DEFAULT_THEME pb)))) \<and>
         (\<forall>q. p = Some q \<longrightarrow>
            SettingsSet ''active_theme'' (plugin_uid q)
              \<in> set (fst (set_theme pb this (DEFAULT_THEME pb)))) \<and>
         (settings_set this ''active_theme''
              (case p of Some q \<Rightarrow> plugin_uid q | None \<Rightarrow> DEFAULT_THEME pb) = None \<longrightarrow>
            responses (fst (set_theme pb this (DEFAULT_THEME pb))) =
              [\<lparr>content = \<lparr>status = API_SUCCESS,
                           msg = format pb (ls_g this ''generic.SET_THEME_SUCCESS'')
                                   (DEFAULT_THEME pb),
                           data = NoData\<rparr>,
                code = Some 200\<rparr>]) \<and>
         (\<forall>e. settings_set this ''active_theme''
              (case p of Some q \<Rightarrow> plugin_uid q | None \<Rightarrow> DEFAULT_THEME pb) = Some e \<longrightarrow>
            responses (fst (set_theme pb this (DEFAULT_THEME pb))) =
              [\<lparr>content = \<lparr>status = API_FAILURE,
                           msg = format pb (ls_g this ''generic.SET_THEME_FAILED'')
                                   (DEFAULT_THEME pb),
                           data = DataMessages [message e]\<rparr>,
                code = Some 500\<rparr>])"
  using assms
  by (cases err; cases p)
     (simp_all add: set_theme_def set_active_theme_def Let_def apiResponse_def)

text \<open>
  The lookup of the default theme fails with an error and returns no plugin; the theme
  \<^verbatim>\<open>default\<close> is stored and the answer is a Success envelope with status 200.
\<close>

theorem set_theme_default_theme_witness:
  "getPluginBySite sample_this (DEFAULT_THEME sample_pb) =
     (Some \<lparr>message = ''lookup failed'', validationErrors = None\<rparr>, None) \<and>
   Serve404 \<notin> set (fst (set_theme sample_pb sample_this ''default'')) \<and>
   SettingsSet ''active_theme'' ''default''
     \<in> set (fst (set_theme sample_pb sample_this ''default'')) \<and>
   responses (fst (set_theme sample_pb sample_this ''default'')) =
     [\<lparr>content = \<lparr>status = API_SUCCESS, msg = ''generic.SET_THEME_SUCCESS default'',
                  data = NoData\<rparr>,
       code = Some 200\<rparr>]"
proof -
  have d: "DEFAULT_THEME sample_pb = ''default''"
    by (simp add: sample_pb_def)
  have l: "getPluginBySite sample_this (DEFAULT_THEME sample_pb) =
      (Some \<lparr>message = ''lookup failed'', validationErrors = None\<rparr>, None)"
    by (simp add: sample_defs)
  have s: "settings_set sample_this ''active_theme'' ''default'' = None"
    by (simp add: sample_this_def)
  have f: "format sample_pb (ls_g sample_this ''generic.SET_THEME_SUCCESS'') ''default'' =
      ''generic.SET_THEME_SUCCESS default''"
    by (simp add: sample_defs)
  from set_theme_default_theme [OF l] d s l f show ?thesis
    by simp
qed

text \<open>
  C6. With any other identifier: a lookup error is answered with a Failure envelope and
  status 500 carrying the error's message; a lookup without error that returns no
  plugin, or a plugin whose theme is not an object, serves the not-found page and
  passes no envelope to the callback.
\<close>

theorem set_theme_other_theme:
  assumes "uid \<noteq> DEFAULT_THEME pb" and "getPluginBySite this uid = (err, p)"
  shows "(\<forall>e. err = Some e \<longrightarrow>
            set_theme pb this uid =
              ([GetPluginBySite uid,
                Respond \<lparr>content = \<lparr>status = API_FAILURE,
                                     msg = format pb (ls_g this ''generic.SET_THEME_FAILED'') uid,
                                     data = DataMessages [message e]\<rparr>,
                         code = Some 500\<rparr>],
               None)) \<and>
         (err = None \<and> p = None \<longrightarrow>
            set_theme pb this uid = ([GetPluginBySite uid, Serve404], None)) \<and>
         (\<forall>q. err = None \<and> p = Some q \<and> plugin_theme q = None \<longrightarrow>
            set_theme pb this uid = ([GetPluginBySite uid, Serve404], None))"
  using assms
  by (simp add: set_theme_def set_active_theme_def apiResponse_def)

theorem set_theme_other_theme_witness:
  "''broken'' \<noteq> DEFAULT_THEME sample_pb \<and>
   set_theme sample_pb sample_this ''broken'' =
     ([GetPluginBySite ''broken'',
       Respond \<lparr>content = \<lparr>status = API_FAILURE, msg = ''generic.SET_THEME_FAILED broken'',
                            data = DataMessages [''lookup failed'']\<rparr>,
                code = Some 500\<rparr>],
      None) \<and>
   ''wp_import'' \<noteq> DEFAULT_THEME sample_pb \<and>
   set_theme sample_pb sample_this ''wp_import'' =
     ([GetPluginBySite ''wp_import'', Serve404], None) \<and>
   ''missing'' \<noteq> DEFAULT_THEME sample_pb \<and>
   set_theme sample_pb sample_this ''missing'' =
     ([GetPluginBySite ''missing'', Serve404], None)"
proof -
  have d: "''broken'' \<noteq> DEFAULT_THEME sample_pb" "''wp_import'' \<noteq> DEFAULT_THEME sample_pb"
    "''missing'' \<noteq> DEFAULT_THEME sample_pb"
    by (simp_all add: sample_pb_def)
  have l1: "getPluginBySite sample_this ''broken'' =
      (Some \<lparr>message = ''lookup failed'', validationErrors = None\<rparr>, None)"
    by (simp add: sample_defs)
  have l2: "getPluginBySite sample_this ''wp_import'' =
      (None, Some \<lparr>plugin_uid = ''wp_import'', plugin_dirName = ''wp_import'',
                    plugin_theme = None\<rparr>)"
    by (simp add: sample_defs)
  have l3: "getPluginBySite sample_this ''missing'' = (None, None)"
    by (simp add: sample_defs)
  have f: "format sample_pb (ls_g sample_this ''generic.SET_THEME_FAILED'') ''broken'' =
      ''generic.SET_THEME_FAILED broken''"
    by (simp add: sample_defs)
  from set_theme_other_theme [OF d(1) l1] set_theme_other_theme [OF d(2) l2]
    set_theme_other_theme [OF d(3) l3] d f
  show ?thesis by simp
qed

subsection \<open>initialize\<close>

text \<open>
  C8. A lookup error is answered with a Failure envelope, status 500 and the list of
  the error's message alone, and the initialiser is not called. Without a lookup error
  the initialiser is called with what the lookup returned; its error is answered with a
  Failure envelope and status 400, its success with a Success envelope and status 200.
  Every run passes exactly one answer to the callback.
\<close>

theorem initialize_outcome:
  assumes "getPluginBySite this uid = (err, p)"
  shows "(\<forall>e. err = Some e \<longrightarrow>
            initialize pb this uid =
              ([GetPluginBySite uid,
                Respond \<lparr>content = \<lparr>status = API_FAILURE,
                                     msg = format pb (ls_g this ''generic.INITIALIZATION_FAILED'') uid,
                                     data = DataMessages [message e]\<rparr>,
                         code = Some 500\<rparr>],
               None)) \<and>
         (err = None \<longrightarrow>
            (\<forall>e. initPlugin this p = Some e \<longrightarrow>
               initialize pb this uid =
                 ([GetPluginBySite uid, InitPlugin p,
                   Respond \<lparr>content = \<lparr>status = API_FAILURE,
                                        msg = format pb (ls_g this ''generic.INITIALIZATION_FAILED'') uid,
                                        data = DataMessages [message e]\<rparr>,
                            code = Some 400\<rparr>],
                  None)) \<and>
            (initPlugin this p = None \<longrightarrow>
               initialize pb this uid =
                 ([GetPluginBySite uid, InitPlugin p,
                   Respond \<lparr>content = \<lparr>status = API_SUCCESS,
                                        msg = format pb (ls_g this ''generic.INITIALIZATION_SUCCESS'') uid,
                                        data = NoData\<rparr>,
                            code = Some 200\<rparr>],
                  None))) \<and>
         length (responses (fst (initialize pb this uid))) = 1"
  using assms
  by (cases err) (simp_all add: initialize_def apiResponse_def)

theorem initialize_outcome_witness:
  "initialize sample_pb sample_this ''broken'' =
     ([GetPluginBySite ''broken'',
       Respond \<lparr>content = \<lparr>status = API_FAILURE, msg = ''generic.INITIALIZATION_FAILED broken'',
                            data = DataMessages [''lookup failed'']\<rparr>,
                code = Some 500\<rparr>],
      None) \<and>
   initialize sample_pb sample_this ''missing'' =
     ([GetPluginBySite ''missing'', InitPlugin None,
       Respond \<lparr>content = \<lparr>status = API_FAILURE, msg = ''generic.INITIALIZATION_FAILED missing'',
                            data = DataMessages [''no plugin'']\<rparr>,
                code = Some 400\<rparr>],
      None) \<and>
   initialize sample_pb sample_this ''wp_import'' =
     ([GetPluginBySite ''wp_import'',
       InitPlugin (Some \<lparr>plugin_uid = ''wp_import'', plugin_dirName = ''wp_import'',
                         plugin_theme = None\<rparr>),
       Respond \<lparr>content = \<lparr>status = API_SUCCESS,
                            msg = ''generic.INITIALIZATION_SUCCESS wp_import'',
                            data = NoData\<rparr>,
                code = Some 200\<rparr>],
      None) \<and>
   length (responses (fst (initialize sample_pb sample_this ''wp_import''))) = 1"
proof -
  have l1: "getPluginBySite sample_this ''broken'' =
      (Some \<lparr>message = ''lookup failed'', validationErrors = None\<rparr>, None)"
    by (simp add: sample_defs)
  have l2: "getPluginBySite sample_this ''missing'' = (None, None)"
    by (simp add: sample_defs)
  have l3: "getPluginBySite sample_this ''wp_import'' =
      (None, Some \<lparr>plugin_uid = ''wp_import'', plugin_dirName = ''wp_import'',
                    plugin_theme = None\<rparr>)"
    by (simp add: sample_defs)
  have i2: "initPlugin sample_this None =
      Some \<lparr>message = ''no plugin'', validationErrors = None\<rparr>"
    by (simp add: sample_defs)
  have i3: "initPlugin sample_this
      (Some \<lparr>plugin_uid = ''wp_import'', plugin_dirName = ''wp_import'',
             plugin_theme = None\<rparr>) = None"
    by (simp add: sample_defs)
  have f: "format sample_pb (ls_g sample_this ''generic.INITIALIZATION_FAILED'') ''broken'' =
             ''generic.INITIALIZATION_FAILED broken''"
    "format sample_pb (ls_g sample_this ''generic.INITIALIZATION_FAILED'') ''missing'' =
             ''generic.INITIALIZATION_FAILED missing''"
    "format sample_pb (ls_g sample_this ''generic.INITIALIZATION_SUCCESS'') ''wp_import'' =
             ''generic.INITIALIZATION_SUCCESS wp_import''"
    by (simp_all add: sample_defs)
  from initialize_outcome [OF l1, of sample_pb] initialize_outcome [OF l2, of sample_pb]
    initialize_outcome [OF l3, of sample_pb] i2 i3 f
  show ?thesis by simp
qed

subsection \<open>reset_settings\<close>

lemma push_messages_append: "push_messages dta vs = dta @ map vf_message vs"
  by (induction vs arbitrary: dta) simp_all

lemma error_messages_eq:
  "error_messages err =
     message err # map vf_message (case validationErrors err of None \<Rightarrow> [] | Some vs \<Rightarrow> vs)"
  by (simp add: error_messages_def push_messages_append split: option.splits)

lemma async_series_stops: "fst (t s) \<noteq> StepOk \<Longrightarrow> async_series (t # ts) s = t s"
  by (cases "t s"; cases "fst (t s)") auto

lemma async_series_continues:
  "t s = (StepOk, s') \<Longrightarrow> async_series (t # ts) s = async_series ts s'"
  by simp

lemmas task_defs = load_plugin_def reset_plugin_settings_def reset_theme_settings_def log_def

lemma load_plugin_not_found:
  "snd (getPluginBySite this uid) = None \<Longrightarrow>
   load_plugin pb g this uid s =
     (StepErr \<lparr>message = format pb (ls_g this ''generic.PLUGIN_NOT_FOUND'') uid,
               validationErrors = None\<rparr>,
      s\<lparr>trace := trace s @ [GetPluginBySite uid]\<rparr>)"
  by (simp add: task_defs)

text \<open>
  C4. When the first task does not call back without an error, neither the settings
  reset nor the theme settings reset is called in that run; and when the settings reset
  was called and failed, the theme settings reset is not called.
\<close>

theorem reset_settings_short_circuit:
  "(fst (load_plugin pb g this uid \<lparr>details = None, trace = []\<rparr>) \<noteq> StepOk \<longrightarrow>
      (\<forall>d. ResetSettings d \<notin> set (fst (reset_settings pb g this uid))) \<and>
      (\<forall>d. ResetThemeSettings d \<notin> set (fst (reset_settings pb g this uid)))) \<and>
   (\<forall>d e. ResetSettings d \<in> set (fst (reset_settings pb g this uid)) \<and>
           resetSettings this d = Some e \<longrightarrow>
      (\<forall>d'. ResetThemeSettings d' \<notin> set (fst (reset_settings pb g this uid))))"
  by (auto simp: reset_settings_def reset_tasks_def reset_settings_done_def task_defs Let_def
           split: option.splits)

text \<open>
  A plugin that is not found fails the first task; with a loader defined, the settings
  reset of \<^verbatim>\<open>portfolio\<close> is called and fails.
\<close>

theorem reset_settings_short_circuit_witness:
  "fst (load_plugin sample_pb node_globals sample_this ''missing-plugin''
          \<lparr>details = None, trace = []\<rparr>) \<noteq> StepOk \<and>
   (\<forall>d. ResetSettings d
      \<notin> set (fst (reset_settings sample_pb node_globals sample_this ''missing-plugin''))) \<and>
   (\<forall>d. ResetThemeSettings d
      \<notin> set (fst (reset_settings sample_pb node_globals sample_this ''missing-plugin''))) \<and>
   ResetSettings (Some \<lparr>details_uid = ''portfolio'', details_theme = None\<rparr>)
      \<in> set (fst (reset_settings sample_pb loader_globals sample_this ''portfolio'')) \<and>
   resetSettings sample_this (Some \<lparr>details_uid = ''portfolio'', details_theme = None\<rparr>) \<noteq> None \<and>
   (\<forall>d. ResetThemeSettings d
      \<notin> set (fst (reset_settings sample_pb loader_globals sample_this ''portfolio'')))"
proof -
  have a: "fst (load_plugin sample_pb node_globals sample_this ''missing-plugin''
                  \<lparr>details = None, trace = []\<rparr>) \<noteq> StepOk"
    by (simp add: load_plugin_not_found sample_defs)
  have b: "ResetSettings (Some \<lparr>details_uid = ''portfolio'', details_theme = None\<rparr>)
      \<in> set (fst (reset_settings sample_pb loader_globals sample_this ''portfolio''))"
    by (simp add: reset_settings_def reset_tasks_def reset_settings_done_def task_defs
                  sample_defs)
  have c: "resetSettings sample_this
             (Some \<lparr>details_uid = ''portfolio'', details_theme = None\<rparr>) =
           Some \<lparr>message = ''invalid settings'',
                 validationErrors =
                   Some [ValidationFailure ''name is required'',
                         ValidationFailure ''value is required'']\<rparr>"
    by (simp add: sample_defs)
  from reset_settings_short_circuit
         [of sample_pb node_globals sample_this "''missing-plugin''"]
       reset_settings_short_circuit
         [of sample_pb loader_globals sample_this "''portfolio''"]
       a b c
  show ?thesis by blast
qed

text \<open>
  The final callback. When the series ends with an error, the answer is a Failure
  envelope with status 400 whose data is the error's message followed by the message of
  each of its validation errors, in order, if it carries any. When the series ends
  without an error, the answer is a Success envelope with the formatted success message
  and no data. Nothing is said here about a series that a throwing task ends: the final
  callback does not run then.
\<close>

lemma reset_settings_response:
  assumes "async_series (reset_tasks pb g this uid) \<lparr>details = None, trace = []\<rparr> = (r, s)"
  shows "(\<forall>err. r = StepErr err \<longrightarrow>
            reset_settings pb g this uid =
              (trace s @
                 [Respond \<lparr>content = \<lparr>status = API_FAILURE,
                                      msg = format pb (ls_g this ''generic.RESET_SETTINGS_FAILED'') uid,
                                      data = DataMessages
                                        (message err #
                                         map vf_message
                                           (case validationErrors err of
                                              None \<Rightarrow> [] | Some vs \<Rightarrow> vs))\<rparr>,
                           code = Some 400\<rparr>],
               None)) \<and>
         (r = StepOk \<longrightarrow>
            reset_settings pb g this uid =
              (trace s @
                 [Respond \<lparr>content = \<lparr>status = API_SUCCESS,
                                      msg = format pb (ls_g this ''generic.RESET_SETTINGS_SUCCESS'') uid,
                                      data = NoData\<rparr>,
                           code = None\<rparr>],
               None))"
  using assms
  by (simp add: reset_settings_def reset_settings_done_def apiResponse_def error_messages_eq)

text \<open>
  A plugin that is not found; with a loader defined, a settings reset that fails with
  two validation errors, and a run in which all three tasks succeed.
\<close>

lemma reset_settings_response_examples:
  "reset_settings sample_pb node_globals sample_this ''missing-plugin'' =
     ([GetPluginBySite ''missing-plugin'',
       Respond \<lparr>content = \<lparr>status = API_FAILURE,
                            msg = ''generic.RESET_SETTINGS_FAILED missing-plugin'',
                            data = DataMessages [''generic.PLUGIN_NOT_FOUND missing-plugin'']\<rparr>,
                code = Some 400\<rparr>],
      None) \<and>
   reset_settings sample_pb loader_globals sample_this ''portfolio'' =
     ([GetPluginBySite ''portfolio'', GetDetailsPath ''portfolio'', DetailsLoad ''portfolio'',
       ResetSettings (Some \<lparr>details_uid = ''portfolio'', details_theme = None\<rparr>),
       Respond \<lparr>content = \<lparr>status = API_FAILURE,
                            msg = ''generic.RESET_SETTINGS_FAILED portfolio'',
                            data = DataMessages [''invalid settings'', ''name is required'',
                                                 ''value is required'']\<rparr>,
                code = Some 400\<rparr>],
      None) \<and>
   reset_settings sample_pb loader_globals sample_this ''wp_import'' =
     ([GetPluginBySite ''wp_import'', GetDetailsPath ''wp_import'', DetailsLoad ''wp_import'',
       ResetSettings (Some \<lparr>details_uid = ''wp_import'', details_theme = None\<rparr>),
       Respond \<lparr>content = \<lparr>status = API_SUCCESS,
                            msg = ''generic.RESET_SETTINGS_SUCCESS wp_import'',
                            data = NoData\<rparr>,
                code = None\<rparr>],
      None)"
proof -
  have r1: "async_series (reset_tasks sample_pb node_globals sample_this ''missing-plugin'')
              \<lparr>details = None, trace = []\<rparr> =
            (StepErr \<lparr>message = ''generic.PLUGIN_NOT_FOUND missing-plugin'',
                      validationErrors = None\<rparr>,
             \<lparr>details = None, trace = [GetPluginBySite ''missing-plugin'']\<rparr>)"
    by (simp add: reset_tasks_def task_defs sample_defs)
  have r2: "async_series (reset_tasks sample_pb loader_globals sample_this ''portfolio'')
              \<lparr>details = None, trace = []\<rparr> =
            (StepErr \<lparr>message = ''invalid settings'',
                      validationErrors =
                        Some [ValidationFailure ''name is required'',
                              ValidationFailure ''value is required'']\<rparr>,
             \<lparr>details = Some \<lparr>details_uid = ''portfolio'', details_theme = None\<rparr>,
              trace = [GetPluginBySite ''portfolio'', GetDetailsPath ''portfolio'',
                       DetailsLoad ''portfolio'',
                       ResetSettings (Some \<lparr>details_uid = ''portfolio'',
                                             details_theme = None\<rparr>)]\<rparr>)"
    by (simp add: reset_tasks_def task_defs sample_defs)
  have r3: "async_series (reset_tasks sample_pb loader_globals sample_this ''wp_import'')
              \<lparr>details = None, trace = []\<rparr> =
            (StepOk,
             \<lparr>details = Some \<lparr>details_uid = ''wp_import'', details_theme = None\<rparr>,
              trace = [GetPluginBySite ''wp_import'', GetDetailsPath ''wp_import'',
                       DetailsLoad ''wp_import'',
                       ResetSettings (Some \<lparr>details_uid = ''wp_import'',
                                             details_theme = None\<rparr>)]\<rparr>)"
    by (simp add: reset_tasks_def task_defs sample_defs)
  have f: "format sample_pb (ls_g sample_this ''generic.RESET_SETTINGS_FAILED'') ''missing-plugin'' =
             ''generic.RESET_SETTINGS_FAILED missing-plugin''"
    "format sample_pb (ls_g sample_this ''generic.RESET_SETTINGS_FAILED'') ''portfolio'' =
             ''generic.RESET_SETTINGS_FAILED portfolio''"
    "format sample_pb (ls_g sample_this ''generic.RESET_SETTINGS_SUCCESS'') ''wp_import'' =
             ''generic.RESET_SETTINGS_SUCCESS wp_import''"
    by (simp_all add: sample_defs)
  from reset_settings_response [OF r1] reset_settings_response [OF r2]
    reset_settings_response [OF r3] f
  show ?thesis by simp
qed

text \<open>
  The runs the final callback never sees. Without a global \<^verbatim>\<open>PluginDetailsLoader\<close>
  a run either fails on a plugin that is not found or is ended by the ReferenceError of
  the first task; with one, details that load as \<^verbatim>\<open>null\<close> and pass the settings
  reset end the third task with a TypeError.
\<close>

lemma reset_settings_without_loader:
  "g_PluginDetailsLoader g = None \<Longrightarrow>
   reset_settings pb g this uid =
     (case snd (getPluginBySite this uid) of
        None \<Rightarrow>
          ([GetPluginBySite uid,
            Respond \<lparr>content = \<lparr>status = API_FAILURE,
                                 msg = format pb (ls_g this ''generic.RESET_SETTINGS_FAILED'') uid,
                                 data = DataMessages
                                   [format pb (ls_g this ''generic.PLUGIN_NOT_FOUND'') uid]\<rparr>,
                      code = Some 400\<rparr>],
           None)
      | Some p \<Rightarrow>
          ([GetPluginBySite uid, GetDetailsPath (plugin_dirName p)],
           Some (ReferenceError ''PluginDetailsLoader'')))"
  by (simp add: reset_settings_def reset_tasks_def reset_settings_done_def task_defs Let_def
                apiResponse_def error_messages_def split: option.splits)

lemma reset_settings_null_details:
  "g_PluginDetailsLoader g = Some load \<Longrightarrow> snd (getPluginBySite this uid) = Some p \<Longrightarrow>
   load (plugin_dirName p) = None \<Longrightarrow> resetSettings this None = None \<Longrightarrow>
   reset_settings pb g this uid =
     ([GetPluginBySite uid, GetDetailsPath (plugin_dirName p), DetailsLoad (plugin_dirName p),
       ResetSettings None],
      Some (TypeError ''theme''))"
  by (simp add: reset_settings_def reset_tasks_def reset_settings_done_def task_defs Let_def)

text \<open>
  C7. The claim: every failure of the pipeline is answered with a Failure envelope,
  status 400, whose data starts with the error's message and continues with the
  messages of its validation errors, and a pipeline that succeeds is answered with a
  Success envelope without data. On the platform's global object a request to reset the
  settings of the existing plugin \<^verbatim>\<open>portfolio\<close> fails in the first task, which
  throws the ReferenceError for \<^verbatim>\<open>PluginDetailsLoader\<close>: the series ends without
  its final callback, and no envelope at all is passed to the callback.
\<close>

theorem reset_settings_existing_plugin_unanswered:
  "fst (async_series (reset_tasks sample_pb node_globals sample_this ''portfolio'')
          \<lparr>details = None, trace = []\<rparr>) =
     StepThrew (ReferenceError ''PluginDetailsLoader'') \<and>
   render sample_pb node_globals sample_this ''reset_settings'' ''portfolio'' =
     ([GetPluginBySite ''portfolio'', GetDetailsPath ''portfolio''],
      Some (ReferenceError ''PluginDetailsLoader'')) \<and>
   responses (fst (render sample_pb node_globals sample_this ''reset_settings'' ''portfolio''))
     = []"
  by (simp add: render_def validate_def route_def obj_get_def VALID_ACTIONS_def
                reset_settings_def reset_tasks_def reset_settings_done_def task_defs
                sample_defs)

text \<open>
  C10. On a global object without \<^verbatim>\<open>PluginDetailsLoader\<close>, whenever the lookup
  returns a plugin the first task throws a ReferenceError after it computed the details
  path: it never calls back, the settings reset and the theme settings reset are not
  called, and no answer is passed to the callback.
\<close>

theorem reset_settings_undeclared_loader:
  assumes "g_PluginDetailsLoader g = None" and "getPluginBySite this uid = (err, Some p)"
  shows "fst (load_plugin pb g this uid s) = StepThrew (ReferenceError ''PluginDetailsLoader'') \<and>
         reset_settings pb g this uid =
           ([GetPluginBySite uid, GetDetailsPath (plugin_dirName p)],
            Some (ReferenceError ''PluginDetailsLoader'')) \<and>
         (\<forall>d. ResetSettings d \<notin> set (fst (reset_settings pb g this uid))) \<and>
         (\<forall>d. ResetThemeSettings d \<notin> set (fst (reset_settings pb g this uid))) \<and>
         responses (fst (reset_settings pb g this uid)) = []"
  using assms
  by (simp add: reset_settings_def reset_tasks_def reset_settings_done_def task_defs Let_def)

theorem reset_settings_undeclared_loader_witness:
  "g_PluginDetailsLoader node_globals = None \<and>
   getPluginBySite sample_this ''portfolio'' =
     (None, Some \<lparr>plugin_uid = ''portfolio'', plugin_dirName = ''portfolio'',
                   plugin_theme = Some \<lparr>settings = Some []\<rparr>\<rparr>) \<and>
   reset_settings sample_pb node_globals sample_this ''portfolio'' =
     ([GetPluginBySite ''portfolio'', GetDetailsPath ''portfolio''],
      Some (ReferenceError ''PluginDetailsLoader''))"
proof -
  have g: "g_PluginDetailsLoader node_globals = None"
    by (simp add: node_globals_def)
  have l: "getPluginBySite sample_this ''portfolio'' =
     (None, Some \<lparr>plugin_uid = ''portfolio'', plugin_dirName = ''portfolio'',
                   plugin_theme = Some \<lparr>settings = Some []\<rparr>\<rparr>)"
    by (simp add: sample_defs)
  from reset_settings_undeclared_loader [OF g l, of sample_pb] g l
  show ?thesis by simp
qed

end
